theory Spec2Isabelle
  imports Main
begin

section \<open>The syntax tree consumed by the converter\<close>

text \<open>
  The converter of \<^verbatim>\<open>src/templates/logic/src/converter.ts\<close> works on the tree that the
  TypeScript front end builds. Only the node kinds that the converter tells apart are
  constructors of their own; every other kind is an \<open>OtherNode\<close>. The first argument of
  a constructor is the source text of the node, what \<^verbatim>\<open>node.getText()\<close> returns; the
  keyword \<^verbatim>\<open>this\<close> has the fixed text. The converter reads an identifier either through
  \<^verbatim>\<open>text\<close> (the name of a class, the expression of a decorator) or through
  \<^verbatim>\<open>getText()\<close> (every other name), never through both: the one string of an
  \<open>Identifier\<close> stands for the one that is read.

  The operator of a binary expression is the \<^verbatim>\<open>kind\<close> of its operator token.
\<close>

datatype operatorToken =
    EqualsToken
  | PlusEqualsToken
  | MinusEqualsToken
  | AsteriskEqualsToken
  | SlashEqualsToken
  | PlusToken
  | MinusToken
  | AsteriskToken
  | EqualsEqualsEqualsToken
  | GreaterThanToken
  | GreaterThanEqualsToken
  | LessThanToken
  | OtherOperatorToken string

datatype node =
    SourceFile string "node list"
      \<comment> \<open>text, statements\<close>
  | ClassDeclaration string "node list" "node option" "node list" "node list"
      \<comment> \<open>text, modifiers, name, type parameters and heritage clauses, members\<close>
  | PropertyDeclaration string "node list" node "node option" "node option"
      \<comment> \<open>text, modifiers, name, type, initializer\<close>
  | MethodDeclaration string "node list" "node option" "node list" "node option" "node option"
      \<comment> \<open>text, modifiers, name, parameters, type, body\<close>
  | Parameter string "node list" node "node option" "node option"
      \<comment> \<open>text, modifiers, name, type, initializer\<close>
  | Decorator string node
      \<comment> \<open>text, expression\<close>
  | Block string "node list"
      \<comment> \<open>text, statements\<close>
  | ReturnStatement string "node option"
      \<comment> \<open>text, expression\<close>
  | BinaryExpression string node operatorToken node
      \<comment> \<open>text, left, operatorToken.kind, right\<close>
  | PropertyAccessExpression string node node
      \<comment> \<open>text, expression, name\<close>
  | ThisKeyword
  | Identifier string
  | OtherNode string "node list"
      \<comment> \<open>text, children\<close>

fun getText :: "node \<Rightarrow> string" where
  "getText (SourceFile t _) = t"
| "getText (ClassDeclaration t _ _ _ _) = t"
| "getText (PropertyDeclaration t _ _ _ _) = t"
| "getText (MethodDeclaration t _ _ _ _ _) = t"
| "getText (Parameter t _ _ _ _) = t"
| "getText (Decorator t _) = t"
| "getText (Block t _) = t"
| "getText (ReturnStatement t _) = t"
| "getText (BinaryExpression t _ _ _) = t"
| "getText (PropertyAccessExpression t _ _) = t"
| "getText ThisKeyword = ''this''"
| "getText (Identifier t) = t"
| "getText (OtherNode t _) = t"

text \<open>An optional child, as the list of children it contributes.\<close>

fun optional :: "node option \<Rightarrow> node list" where
  "optional None = []"
| "optional (Some n) = [n]"

text \<open>
  \<^verbatim>\<open>ts.forEachChild(node, cb)\<close> calls \<open>cb\<close> on the children of the node, in the order of
  the source. None of the callbacks of the converter returns a value, so the iteration
  never stops early. The operator token of a binary expression and the other bare tokens
  are leaves of a kind no visitor reacts to; they are left out, and so are the type
  parameters of a method, which hold types only.
\<close>

fun forEachChild :: "node \<Rightarrow> node list" where
  "forEachChild (SourceFile _ statements) = statements"
| "forEachChild (ClassDeclaration _ modifiers name heritage members) =
     modifiers @ optional name @ heritage @ members"
| "forEachChild (PropertyDeclaration _ modifiers name type initializer) =
     modifiers @ [name] @ optional type @ optional initializer"
| "forEachChild (MethodDeclaration _ modifiers name parameters type body) =
     modifiers @ optional name @ parameters @ optional type @ optional body"
| "forEachChild (Parameter _ modifiers name type initializer) =
     modifiers @ [name] @ optional type @ optional initializer"
| "forEachChild (Decorator _ expression) = [expression]"
| "forEachChild (Block _ statements) = statements"
| "forEachChild (ReturnStatement _ expression) = optional expression"
| "forEachChild (BinaryExpression _ left _ right) = [left, right]"
| "forEachChild (PropertyAccessExpression _ expression name) = [expression, name]"
| "forEachChild ThisKeyword = []"
| "forEachChild (Identifier _) = []"
| "forEachChild (OtherNode _ children) = children"

lemma set_optional: "set (optional x) = set_option x"
  by (cases x) simp_all

lemma size_list_member: "c \<in> set xs \<Longrightarrow> size c \<le> size_list size xs"
  by (simp add: size_list_estimation')

lemma forEachChild_size: "c \<in> set (forEachChild n) \<Longrightarrow> size c < size n"
  by (cases n) (auto simp: set_optional dest!: size_list_member)

section \<open>The contract model\<close>

text \<open>
  The interfaces \<^verbatim>\<open>CairoParameter\<close>, \<^verbatim>\<open>CairoFunction\<close>, \<^verbatim>\<open>CairoStorage\<close> and
  \<^verbatim>\<open>CairoContract\<close>. A field carries the initial of its interface, since the interfaces
  share the field names \<^verbatim>\<open>name\<close> and \<^verbatim>\<open>type\<close>.
\<close>

datatype visibility = external | internal

record CairoParameter =
  p_name :: string
  p_type :: string

record CairoFunction =
  f_name :: string
  f_parameters :: "CairoParameter list"
  f_returnType :: string
  f_visibility :: visibility
  f_body :: "string list"
  f_isView :: bool

record CairoStorage =
  s_name :: string
  s_type :: string

record CairoContract =
  c_name :: string
  c_storage :: "CairoStorage list"
  c_functions :: "CairoFunction list"

text \<open>The contract and the type map that the constructor sets up.\<close>

definition initialContract :: CairoContract where
  "initialContract = \<lparr>c_name = [], c_storage = [], c_functions = []\<rparr>"

definition typeMap :: "(string \<times> string) list" where
  "typeMap =
     [(''number'', ''felt252''),
      (''string'', ''felt252''),
      (''boolean'', ''bool''),
      (''bigint'', ''u256'')]"

section \<open>JavaScript values\<close>

text \<open>
  \<^verbatim>\<open>x || d\<close> on a string that may be \<^verbatim>\<open>undefined\<close>: the default is taken when the
  string is absent or empty.
\<close>

fun orElse :: "string option \<Rightarrow> string \<Rightarrow> string" where
  "orElse None d = d"
| "orElse (Some s) d = (if s = [] then d else s)"

text \<open>
  \<^verbatim>\<open>`${xs[0]}`\<close> on an array of strings: index zero of an empty array is
  \<^verbatim>\<open>undefined\<close>, which a template literal prints as the text \<^verbatim>\<open>undefined\<close>; nothing is
  raised.
\<close>

fun indexZero :: "string list \<Rightarrow> string" where
  "indexZero [] = ''undefined''"
| "indexZero (x # _) = x"

text \<open>\<^verbatim>\<open>[...new Set(xs)]\<close>: the distinct elements, in the order of their first insertion.\<close>

definition newSet :: "string list \<Rightarrow> string list" where
  "newSet xs = fold (\<lambda>x seen. if x \<in> set seen then seen else seen @ [x]) xs []"

text \<open>\<^verbatim>\<open>xs.join(sep)\<close>.\<close>

fun join :: "string \<Rightarrow> string list \<Rightarrow> string" where
  "join sep [] = []"
| "join sep [x] = x"
| "join sep (x # y # ys) = x @ sep @ join sep (y # ys)"

definition newline :: string where
  "newline = [CHR 0x0A]"

section \<open>Decorators\<close>

text \<open>\<^verbatim>\<open>ts.getDecorators(node)\<close>: the decorators among the modifiers of a method.\<close>

fun isDecorator :: "node \<Rightarrow> bool" where
  "isDecorator (Decorator _ _) = True"
| "isDecorator _ = False"

fun getDecorators :: "node \<Rightarrow> node list" where
  "getDecorators (MethodDeclaration _ modifiers _ _ _ _) = filter isDecorator modifiers"
| "getDecorators _ = []"

fun decoratorNamed :: "string \<Rightarrow> node \<Rightarrow> bool" where
  "decoratorNamed s (Decorator _ (Identifier t)) = (t = s)"
| "decoratorNamed s _ = False"

definition hasViewDecorator :: "node \<Rightarrow> bool" where
  "hasViewDecorator n =
     (let decorators = getDecorators n in
      if decorators = [] then False else list_ex (decoratorNamed ''view'') decorators)"

definition hasExternalDecorator :: "node \<Rightarrow> bool" where
  "hasExternalDecorator n =
     (let decorators = getDecorators n in
      if decorators = [] then False else list_ex (decoratorNamed ''external'') decorators)"

section \<open>The type mapper\<close>

definition convertType :: "node \<Rightarrow> string" where
  "convertType typeNode =
     (let typeText = getText typeNode in orElse (map_of typeMap typeText) ''felt252'')"

text \<open>
  \<^verbatim>\<open>x.type ? this.convertType(x.type) : 'felt252'\<close>, as the converter writes it for a
  property, for the return type of a method and for a parameter.
\<close>

fun convertOptionalType :: "node option \<Rightarrow> string" where
  "convertOptionalType (Some t) = convertType t"
| "convertOptionalType None = ''felt252''"

section \<open>The body analyzer\<close>

text \<open>
  Each visitor is a closure that appends to an array (or sets a flag) of the enclosing
  function; here the array is passed through the traversal.
\<close>

function findStateVariableAccess_visitor :: "node \<Rightarrow> string list \<Rightarrow> string list" where
  "findStateVariableAccess_visitor n stateVars =
     fold findStateVariableAccess_visitor (forEachChild n)
       (case n of
          PropertyAccessExpression _ expression name \<Rightarrow>
            if expression = ThisKeyword then stateVars @ [getText name] else stateVars
        | _ \<Rightarrow> stateVars)"
  by pat_completeness auto
termination
  by (relation "measure (\<lambda>(n, _). size n)") (auto simp: forEachChild_size)

declare findStateVariableAccess_visitor.simps [simp del]

definition findStateVariableAccess :: "node \<Rightarrow> string list" where
  "findStateVariableAccess n = newSet (findStateVariableAccess_visitor n [])"

function checkIfModifiesState_visitor :: "node \<Rightarrow> bool \<Rightarrow> bool" where
  "checkIfModifiesState_visitor n modifiesState =
     fold checkIfModifiesState_visitor (forEachChild n)
       (case n of
          BinaryExpression _ (PropertyAccessExpression _ expression _) _ _ \<Rightarrow>
            if expression = ThisKeyword then True else modifiesState
        | _ \<Rightarrow> modifiesState)"
  by pat_completeness auto
termination
  by (relation "measure (\<lambda>(n, _). size n)") (auto simp: forEachChild_size)

declare checkIfModifiesState_visitor.simps [simp del]

definition checkIfModifiesState :: "node \<Rightarrow> bool" where
  "checkIfModifiesState n = checkIfModifiesState_visitor n False"

datatype modificationType = assignment

record modification =
  m_type :: modificationType
  m_variable :: string
  m_expression :: string

function extractStateModifications_visitor ::
  "node \<Rightarrow> modification list \<Rightarrow> modification list" where
  "extractStateModifications_visitor n modifications =
     fold extractStateModifications_visitor (forEachChild n)
       (case n of
          BinaryExpression _ (PropertyAccessExpression _ expression name) operatorToken right \<Rightarrow>
            if expression = ThisKeyword then
              (let variable = getText name;
                   expression =
                     (if operatorToken = PlusEqualsToken then
                        (let amount = getText right
                         in ''self.'' @ variable @ ''.read() + '' @ amount)
                      else if operatorToken = MinusEqualsToken then
                        (let amount = getText right
                         in ''self.'' @ variable @ ''.read() - '' @ amount)
                      else getText right)
               in modifications @
                    [\<lparr>m_type = assignment, m_variable = variable, m_expression = expression\<rparr>])
            else modifications
        | _ \<Rightarrow> modifications)"
  by pat_completeness auto
termination
  by (relation "measure (\<lambda>(n, _). size n)") (auto simp: forEachChild_size)

declare extractStateModifications_visitor.simps [simp del]

definition extractStateModifications :: "node \<Rightarrow> modification list" where
  "extractStateModifications n = extractStateModifications_visitor n []"

fun isReturnStatement :: "node \<Rightarrow> bool" where
  "isReturnStatement (ReturnStatement _ _) = True"
| "isReturnStatement _ = False"

function hasReturnStatement_visitor :: "node \<Rightarrow> bool \<Rightarrow> bool" where
  "hasReturnStatement_visitor n hasReturn =
     (let hasReturn1 = (if isReturnStatement n then True else hasReturn)
      in if \<not> hasReturn1 then fold hasReturnStatement_visitor (forEachChild n) hasReturn1
         else hasReturn1)"
  by pat_completeness auto
termination
  by (relation "measure (\<lambda>(n, _). size n)") (auto simp: forEachChild_size)

declare hasReturnStatement_visitor.simps [simp del]

definition hasReturnStatement :: "node \<Rightarrow> bool" where
  "hasReturnStatement n = hasReturnStatement_visitor n False"

section \<open>The instruction synthesizer\<close>

fun analyzeFunctionBody :: "node \<Rightarrow> bool \<Rightarrow> string list" where
  "analyzeFunctionBody (MethodDeclaration _ _ _ _ _ None) isView = []"
| "analyzeFunctionBody (MethodDeclaration _ _ _ _ _ (Some body)) isView =
     (let stateVars = findStateVariableAccess body in
      if isView then [''self.'' @ indexZero stateVars @ ''.read()'']
      else
        (let modifications = extractStateModifications body;
             lines =
               fold (\<lambda>m lines.
                       if m_type m = assignment
                       then lines @
                         [''self.'' @ m_variable m @ ''.write('' @ m_expression m @ '');'']
                       else lines)
                 modifications []
         in if hasReturnStatement body
            then lines @ [''self.'' @ indexZero stateVars @ ''.read()'']
            else lines))"
| "analyzeFunctionBody _ isView = []"

section \<open>The model builder\<close>

text \<open>
  The parameters of a method are \<open>Parameter\<close> nodes; the last equation is for a node of
  another kind, which the front end never puts there.
\<close>

fun processParameter :: "node \<Rightarrow> CairoParameter" where
  "processParameter (Parameter _ _ name type _) =
     \<lparr>p_name = getText name, p_type = convertOptionalType type\<rparr>"
| "processParameter n = \<lparr>p_name = getText n, p_type = ''felt252''\<rparr>"

definition processParameters :: "node list \<Rightarrow> CairoParameter list" where
  "processParameters parameters = map processParameter parameters"

fun processMember :: "node \<Rightarrow> CairoContract \<Rightarrow> CairoContract" where
  "processMember (MethodDeclaration t modifiers None parameters type body) contract = contract"
| "processMember (MethodDeclaration t modifiers (Some name) parameters type body) contract =
     (let node = MethodDeclaration t modifiers (Some name) parameters type body;
          methodName = getText name;
          params = processParameters parameters;
          returnType = convertOptionalType type;
          isView = hasViewDecorator node;
          lines = analyzeFunctionBody node isView;
          cairoFunction =
            \<lparr>f_name = methodName, f_parameters = params, f_returnType = returnType,
             f_visibility = external, f_body = lines, f_isView = isView\<rparr>
      in contract\<lparr>c_functions := c_functions contract @ [cairoFunction]\<rparr>)"
| "processMember _ contract = contract"

fun isMethodDeclaration :: "node \<Rightarrow> bool" where
  "isMethodDeclaration (MethodDeclaration _ _ _ _ _ _) = True"
| "isMethodDeclaration _ = False"

fun processProperty :: "node \<Rightarrow> CairoContract \<Rightarrow> CairoContract" where
  "processProperty (PropertyDeclaration _ _ name type _) contract =
     contract\<lparr>c_storage := c_storage contract @
       [\<lparr>s_name = getText name, s_type = convertOptionalType type\<rparr>]\<rparr>"
| "processProperty _ contract = contract"

fun processClass :: "node \<Rightarrow> CairoContract \<Rightarrow> CairoContract" where
  "processClass (ClassDeclaration _ _ _ _ members) contract =
     fold (\<lambda>member c. if isMethodDeclaration member then processMember member c else c)
       members
       (fold processProperty members contract)"
| "processClass _ contract = contract"

text \<open>\<^verbatim>\<open>node.name?.text\<close> of a class declaration.\<close>

fun nameText :: "node option \<Rightarrow> string option" where
  "nameText (Some (Identifier t)) = Some t"
| "nameText _ = None"

function processNode :: "node \<Rightarrow> CairoContract \<Rightarrow> CairoContract" where
  "processNode n contract =
     fold processNode (forEachChild n)
       (case n of
          ClassDeclaration _ _ name _ _ \<Rightarrow>
            processClass n (contract\<lparr>c_name := orElse (nameText name) ''Contract''\<rparr>)
        | _ \<Rightarrow> contract)"
  by pat_completeness auto
termination
  by (relation "measure (\<lambda>(n, _). size n)") (auto simp: forEachChild_size)

declare processNode.simps [simp del]

section \<open>The code emitter\<close>

definition renderParameters :: "CairoParameter list \<Rightarrow> string" where
  "renderParameters ps = join '', '' (map (\<lambda>p. p_name p @ '': '' @ p_type p) ps)"

definition generateStorageVariables :: "CairoContract \<Rightarrow> string" where
  "generateStorageVariables contract =
     join ('','' @ newline)
       (map (\<lambda>storage. ''        '' @ s_name storage @ '': '' @ s_type storage)
          (c_storage contract))"

definition interfaceFunction :: "CairoFunction \<Rightarrow> string" where
  "interfaceFunction func =
     (let params = renderParameters (f_parameters func);
          selfParam =
            (if f_isView func then ''self: @TContractState'' else ''ref self: TContractState'');
          allParams = join '', '' (filter (\<lambda>s. s \<noteq> []) [selfParam, params])
      in ''    fn '' @ f_name func @ ''('' @ allParams @ '') -> '' @ f_returnType func @ '';'')"

definition generateInterfaceFunctions :: "CairoContract \<Rightarrow> string" where
  "generateInterfaceFunctions contract =
     join newline (map interfaceFunction (c_functions contract))"

definition implementationFunction :: "CairoFunction \<Rightarrow> string" where
  "implementationFunction func =
     (let params = renderParameters (f_parameters func);
          selfParam =
            (if f_isView func then ''self: @ContractState'' else ''ref self: ContractState'');
          allParams = join '', '' (filter (\<lambda>s. s \<noteq> []) [selfParam, params])
      in join newline
           ([''        fn '' @ f_name func @ ''('' @ allParams @ '') -> '' @
               f_returnType func @ '' {''] @
            map (\<lambda>line. ''            '' @ line) (f_body func) @
            [''        }'']))"

definition generateImplementationFunctions :: "CairoContract \<Rightarrow> string" where
  "generateImplementationFunctions contract =
     join (newline @ newline) (map implementationFunction (c_functions contract))"

definition generateCairoCode :: "CairoContract \<Rightarrow> string" where
  "generateCairoCode contract =
     join newline
       [''#[starknet::interface]'',
        ''pub trait I'' @ c_name contract @ ''<TContractState> {'',
        generateInterfaceFunctions contract,
        ''}'',
        [],
        ''#[starknet::contract]'',
        ''mod '' @ c_name contract @ '' {'',
        ''    use core::starknet::storage::{StoragePointerReadAccess, StoragePointerWriteAccess};'',
        [],
        ''    #[storage]'',
        ''    struct Storage {'',
        generateStorageVariables contract,
        ''    }'',
        [],
        ''    #[abi(embed_v0)]'',
        ''    impl '' @ c_name contract @ ''Impl of super::I'' @ c_name contract @
          ''<ContractState> {'',
        generateImplementationFunctions contract,
        ''    }'',
        ''}'']"

text \<open>
  \<^verbatim>\<open>convert()\<close>, on the source file that the constructor has parsed; the contract starts
  as the constructor leaves it.
\<close>

definition model :: "node \<Rightarrow> CairoContract" where
  "model sourceFile = processNode sourceFile initialContract"

definition convert :: "node \<Rightarrow> string" where
  "convert sourceFile = generateCairoCode (model sourceFile)"

section \<open>The words of the specification\<close>

text \<open>
  The notions that the specification speaks of, defined from its words and independently
  of the visitors of the converter. First the member accesses on the instance reference
  found anywhere under a node, in the order of a depth-first traversal, and whether a
  return statement is found anywhere under a node.
\<close>

fun accessOf :: "node \<Rightarrow> string list" where
  "accessOf (PropertyAccessExpression _ expression name) =
     (if expression = ThisKeyword then [getText name] else [])"
| "accessOf _ = []"

function memberAccesses :: "node \<Rightarrow> string list" where
  "memberAccesses n = accessOf n @ concat (map memberAccesses (forEachChild n))"
  by pat_completeness auto
termination
  by (relation "measure size") (auto simp: forEachChild_size)

declare memberAccesses.simps [simp del]

function containsReturn :: "node \<Rightarrow> bool" where
  "containsReturn n = (isReturnStatement n \<or> list_ex containsReturn (forEachChild n))"
  by pat_completeness auto
termination
  by (relation "measure size") (auto simp: forEachChild_size)

declare containsReturn.simps [simp del]

text \<open>
  The binary expressions whose left operand is a member access on the instance
  reference, in the order of a depth-first traversal, each as the field, the operator
  and the text of the right operand. The specification recognises three operators; its
  state mutations are the binary expressions with one of them, and it gives each of them
  one write instruction. The text of a write and of a read instruction is that of the
  templates of the converter.
\<close>

fun recognizedOperator :: "operatorToken \<Rightarrow> bool" where
  "recognizedOperator EqualsToken = True"
| "recognizedOperator PlusEqualsToken = True"
| "recognizedOperator MinusEqualsToken = True"
| "recognizedOperator _ = False"

fun instanceFieldBinary :: "node \<Rightarrow> (string \<times> operatorToken \<times> string) list" where
  "instanceFieldBinary (BinaryExpression _ (PropertyAccessExpression _ expression name) operatorToken right) =
     (if expression = ThisKeyword then [(getText name, operatorToken, getText right)] else [])"
| "instanceFieldBinary _ = []"

function instanceFieldBinaries :: "node \<Rightarrow> (string \<times> operatorToken \<times> string) list" where
  "instanceFieldBinaries n =
     instanceFieldBinary n @ concat (map instanceFieldBinaries (forEachChild n))"
  by pat_completeness auto
termination
  by (relation "measure size") (auto simp: forEachChild_size)

declare instanceFieldBinaries.simps [simp del]

definition stateMutations :: "node \<Rightarrow> (string \<times> operatorToken \<times> string) list" where
  "stateMutations n = filter (\<lambda>(v, operator, rhs). recognizedOperator operator) (instanceFieldBinaries n)"

fun synthesizedExpression :: "string \<times> operatorToken \<times> string \<Rightarrow> string" where
  "synthesizedExpression (v, operator, rhs) =
     (if operator = PlusEqualsToken then ''self.'' @ v @ ''.read() + '' @ rhs
      else if operator = MinusEqualsToken then ''self.'' @ v @ ''.read() - '' @ rhs
      else rhs)"

fun writeInstruction :: "string \<times> operatorToken \<times> string \<Rightarrow> string" where
  "writeInstruction (v, operator, rhs) =
     ''self.'' @ v @ ''.write('' @ synthesizedExpression (v, operator, rhs) @ '');''"

definition readInstruction :: "string \<Rightarrow> string" where
  "readInstruction v = ''self.'' @ v @ ''.read()''"

text \<open>
  The class declarations found anywhere under a node, in the order of a depth-first
  traversal; the members of a class and the contract name that it gives.
\<close>

fun classAt :: "node \<Rightarrow> node list" where
  "classAt (ClassDeclaration t modifiers name heritage members) =
     [ClassDeclaration t modifiers name heritage members]"
| "classAt _ = []"

function classDeclarations :: "node \<Rightarrow> node list" where
  "classDeclarations n = classAt n @ concat (map classDeclarations (forEachChild n))"
  by pat_completeness auto
termination
  by (relation "measure size") (auto simp: forEachChild_size)

declare classDeclarations.simps [simp del]

fun members :: "node \<Rightarrow> node list" where
  "members (ClassDeclaration _ _ _ _ ms) = ms"
| "members _ = []"

fun contractName :: "node \<Rightarrow> string" where
  "contractName (ClassDeclaration _ _ name _ _) = orElse (nameText name) ''Contract''"
| "contractName _ = []"

text \<open>
  The declarations of one kind found anywhere under a node, in the order in which the
  source declares them, which is the order of a depth-first traversal.
\<close>

fun isPropertyDeclaration :: "node \<Rightarrow> bool" where
  "isPropertyDeclaration (PropertyDeclaration _ _ _ _ _) = True"
| "isPropertyDeclaration _ = False"

function declared :: "(node \<Rightarrow> bool) \<Rightarrow> node \<Rightarrow> node list" where
  "declared kind n = (if kind n then [n] else []) @ concat (map (declared kind) (forEachChild n))"
  by pat_completeness auto
termination
  by (relation "measure (\<lambda>(_, n). size n)") (auto simp: forEachChild_size)

declare declared.simps [simp del]

section \<open>What one member and one class add to the model\<close>

text \<open>
  The storage field that \<open>processProperty\<close> pushes for a member, the function model that
  \<open>processMember\<close> pushes, what \<open>processNode\<close> does at one class declaration, and the
  modification that the visitor of \<open>extractStateModifications\<close> pushes at one node. The
  lemmas below show that the folds of the converter compute the same.
\<close>

fun storageOf :: "node \<Rightarrow> CairoStorage option" where
  "storageOf (PropertyDeclaration _ _ name type _) =
     Some \<lparr>s_name = getText name, s_type = convertOptionalType type\<rparr>"
| "storageOf _ = None"

fun functionOf :: "node \<Rightarrow> CairoFunction option" where
  "functionOf (MethodDeclaration t modifiers (Some name) parameters type body) =
     (let node = MethodDeclaration t modifiers (Some name) parameters type body in
      Some \<lparr>f_name = getText name, f_parameters = processParameters parameters,
            f_returnType = convertOptionalType type, f_visibility = external,
            f_body = analyzeFunctionBody node (hasViewDecorator node),
            f_isView = hasViewDecorator node\<rparr>)"
| "functionOf _ = None"

definition classStorage :: "node \<Rightarrow> CairoStorage list" where
  "classStorage cls = List.map_filter storageOf (members cls)"

definition classFunctions :: "node \<Rightarrow> CairoFunction list" where
  "classFunctions cls = List.map_filter functionOf (members cls)"

definition applyClass :: "node \<Rightarrow> CairoContract \<Rightarrow> CairoContract" where
  "applyClass cls contract = processClass cls (contract\<lparr>c_name := contractName cls\<rparr>)"

fun modificationsAt :: "node \<Rightarrow> modification list" where
  "modificationsAt (BinaryExpression _ (PropertyAccessExpression _ expression name) operatorToken right) =
     (if expression = ThisKeyword then
        [\<lparr>m_type = assignment, m_variable = getText name,
          m_expression =
            (if operatorToken = PlusEqualsToken
             then ''self.'' @ getText name @ ''.read() + '' @ getText right
             else if operatorToken = MinusEqualsToken
             then ''self.'' @ getText name @ ''.read() - '' @ getText right
             else getText right)\<rparr>]
      else [])"
| "modificationsAt _ = []"

fun modificationOf :: "string \<times> operatorToken \<times> string \<Rightarrow> modification" where
  "modificationOf (v, operator, rhs) =
     \<lparr>m_type = assignment, m_variable = v,
      m_expression = synthesizedExpression (v, operator, rhs)\<rparr>"

section \<open>Example programs\<close>

definition thisField :: "string \<Rightarrow> node" where
  "thisField f = PropertyAccessExpression (''this.'' @ f) ThisKeyword (Identifier f)"

definition expressionStatement :: "node \<Rightarrow> node" where
  "expressionStatement e = OtherNode (getText e @ '';'') [e]"

definition numberType :: node where
  "numberType = OtherNode ''number'' []"

definition viewDecorator :: node where
  "viewDecorator = Decorator ''@view'' (Identifier ''view'')"

text \<open>\<^verbatim>\<open>deposit(amount: number): number { this.balance += amount; return this.balance; }\<close>\<close>

definition depositBody :: node where
  "depositBody =
     Block ''{ this.balance += amount; return this.balance; }''
       [expressionStatement
          (BinaryExpression ''this.balance += amount'' (thisField ''balance'') PlusEqualsToken
             (Identifier ''amount'')),
        ReturnStatement ''return this.balance;'' (Some (thisField ''balance''))]"

definition depositMethod :: node where
  "depositMethod =
     MethodDeclaration
       ''deposit(amount: number): number { this.balance += amount; return this.balance; }''
       [] (Some (Identifier ''deposit''))
       [Parameter ''amount: number'' [] (Identifier ''amount'') (Some numberType) None]
       (Some numberType) (Some depositBody)"

text \<open>\<^verbatim>\<open>@view getBalance(): number { return this.balance; }\<close>\<close>

definition getBalanceBody :: node where
  "getBalanceBody =
     Block ''{ return this.balance; }''
       [ReturnStatement ''return this.balance;'' (Some (thisField ''balance''))]"

definition getBalanceMethod :: node where
  "getBalanceMethod =
     MethodDeclaration ''@view getBalance(): number { return this.balance; }''
       [viewDecorator] (Some (Identifier ''getBalance'')) [] (Some numberType)
       (Some getBalanceBody)"

text \<open>\<^verbatim>\<open>scale(): void { this.count *= 2; }\<close>\<close>

definition scaleBody :: node where
  "scaleBody =
     Block ''{ this.count *= 2; }''
       [expressionStatement
          (BinaryExpression ''this.count *= 2'' (thisField ''count'') AsteriskEqualsToken
             (OtherNode ''2'' []))]"

definition scaleMethod :: node where
  "scaleMethod =
     MethodDeclaration ''scale(): void { this.count *= 2; }''
       [] (Some (Identifier ''scale'')) [] (Some (OtherNode ''void'' [])) (Some scaleBody)"

text \<open>
  \<^verbatim>\<open>peek(): number { return 1; }\<close> and \<^verbatim>\<open>@view version(): number { return 1; }\<close>: a body
  with a return statement and no access to a field.
\<close>

definition returnOne :: node where
  "returnOne = Block ''{ return 1; }'' [ReturnStatement ''return 1;'' (Some (OtherNode ''1'' []))]"

definition peekMethod :: node where
  "peekMethod =
     MethodDeclaration ''peek(): number { return 1; }''
       [] (Some (Identifier ''peek'')) [] (Some numberType) (Some returnOne)"


text \<open>\<^verbatim>\<open>@view total(): number;\<close>: a method declaration with no body.\<close>

definition declaredView :: node where
  "declaredView =
     MethodDeclaration ''@view total(): number;''
       [viewDecorator] (Some (Identifier ''total'')) [] (Some numberType) None"

text \<open>\<^verbatim>\<open>class First { a: number; } class Second { b: boolean; }\<close>\<close>

definition firstClass :: node where
  "firstClass =
     ClassDeclaration ''class First { a: number; }'' [] (Some (Identifier ''First'')) []
       [PropertyDeclaration ''a: number;'' [] (Identifier ''a'') (Some numberType) None]"

definition secondClass :: node where
  "secondClass =
     ClassDeclaration ''class Second { b: boolean; }'' [] (Some (Identifier ''Second'')) []
       [PropertyDeclaration ''b: boolean;'' [] (Identifier ''b'')
          (Some (OtherNode ''boolean'' [])) None]"

definition twoClasses :: node where
  "twoClasses =
     SourceFile ''class First { a: number; } class Second { b: boolean; }''
       [firstClass, secondClass]"

text \<open>\<^verbatim>\<open>const limit = 10;\<close>: a source file with no class declaration.\<close>

definition noClassSource :: node where
  "noClassSource =
     SourceFile ''const limit = 10;'' [OtherNode ''const limit = 10;'' [Identifier ''limit'', OtherNode ''10'' []]]"

text \<open>
  \<^verbatim>\<open>class Outer { a: number; m() { class Inner { i: number; n() {} } } b: number; p() {} }\<close>:
  a class declared in the body of a method of another class.
\<close>

definition emptyMethod :: "string \<Rightarrow> node" where
  "emptyMethod f =
     MethodDeclaration (f @ ''() {}'') [] (Some (Identifier f)) [] None (Some (Block ''{}'' []))"

definition numberProperty :: "string \<Rightarrow> node" where
  "numberProperty f =
     PropertyDeclaration (f @ '': number;'') [] (Identifier f) (Some numberType) None"

definition innerClass :: node where
  "innerClass =
     ClassDeclaration ''class Inner { i: number; n() {} }'' [] (Some (Identifier ''Inner'')) []
       [numberProperty ''i'', emptyMethod ''n'']"

definition outerClass :: node where
  "outerClass =
     ClassDeclaration
       ''class Outer { a: number; m() { class Inner { i: number; n() {} } } b: number; p() {} }''
       [] (Some (Identifier ''Outer'')) []
       [numberProperty ''a'',
        MethodDeclaration ''m() { class Inner { i: number; n() {} } }'' []
          (Some (Identifier ''m'')) [] None
          (Some (Block ''{ class Inner { i: number; n() {} } }'' [innerClass])),
        numberProperty ''b'',
        emptyMethod ''p'']"

definition nestedSource :: node where
  "nestedSource =
     SourceFile
       ''class Outer { a: number; m() { class Inner { i: number; n() {} } } b: number; p() {} }''
       [outerClass]"

text \<open>\<^verbatim>\<open>withdraw(amount: number) { if (amount > 0) { this.balance -= amount; } }\<close>\<close>

definition withdrawBody :: node where
  "withdrawBody =
     Block ''{ if (amount > 0) { this.balance -= amount; } }''
       [OtherNode ''if (amount > 0) { this.balance -= amount; }''
          [BinaryExpression ''amount > 0'' (Identifier ''amount'') GreaterThanToken
             (OtherNode ''0'' []),
           Block ''{ this.balance -= amount; }''
             [expressionStatement
                (BinaryExpression ''this.balance -= amount'' (thisField ''balance'')
                   MinusEqualsToken (Identifier ''amount''))]]]"

definition withdrawMethod :: node where
  "withdrawMethod =
     MethodDeclaration ''withdraw(amount: number) { if (amount > 0) { this.balance -= amount; } }''
       [] (Some (Identifier ''withdraw''))
       [Parameter ''amount: number'' [] (Identifier ''amount'') (Some numberType) None]
       None (Some withdrawBody)"

section \<open>The visitors, without their accumulators\<close>

lemma node_children_induct:
  assumes "\<And>n. (\<And>c. c \<in> set (forEachChild n) \<Longrightarrow> P c) \<Longrightarrow> P n"
  shows "P n"
proof (induction n rule: measure_induct_rule [where f = size])
  case (less n)
  show ?case by (rule assms) (simp add: less forEachChild_size)
qed

lemma fold_collect:
  assumes "\<And>x acc. x \<in> set xs \<Longrightarrow> f x acc = acc @ g x"
  shows "fold f xs acc = acc @ concat (map g xs)"
  using assms by (induction xs arbitrary: acc) simp_all

lemma fold_flag:
  assumes "\<And>x h. x \<in> set xs \<Longrightarrow> f x h = (h \<or> g x)"
  shows "fold f xs h = (h \<or> list_ex g xs)"
  using assms by (induction xs arbitrary: h) auto

lemma visitor_memberAccesses:
  "findStateVariableAccess_visitor n acc = acc @ memberAccesses n"
proof (induction n arbitrary: acc rule: node_children_induct)
  case (1 n)
  have kids: "fold findStateVariableAccess_visitor (forEachChild n) a =
      a @ concat (map memberAccesses (forEachChild n))" for a
    by (rule fold_collect) (rule 1)
  show ?case
    by (subst findStateVariableAccess_visitor.simps, subst memberAccesses.simps)
      (simp add: kids split: node.splits)
qed

lemma visitor_containsReturn:
  "hasReturnStatement_visitor n h = (h \<or> containsReturn n)"
proof (induction n arbitrary: h rule: node_children_induct)
  case (1 n)
  have kids: "fold hasReturnStatement_visitor (forEachChild n) a =
      (a \<or> list_ex containsReturn (forEachChild n))" for a
    by (rule fold_flag) (rule 1)
  show ?case
    by (subst hasReturnStatement_visitor.simps, subst containsReturn.simps)
      (auto simp: kids Let_def)
qed

lemma hasReturnStatement_containsReturn: "hasReturnStatement n = containsReturn n"
  by (simp add: hasReturnStatement_def visitor_containsReturn)

lemma newSet_step_set:
  "set (fold (\<lambda>x seen. if x \<in> set seen then seen else seen @ [x]) xs seen) = set seen \<union> set xs"
  by (induction xs arbitrary: seen) auto

lemma newSet_step_distinct:
  "distinct seen \<Longrightarrow>
   distinct (fold (\<lambda>x seen. if x \<in> set seen then seen else seen @ [x]) xs seen)"
  by (induction xs arbitrary: seen) auto

lemma newSet_step_prefix:
  "\<exists>ys. fold (\<lambda>x seen. if x \<in> set seen then seen else seen @ [x]) xs seen = seen @ ys"
proof (induction xs arbitrary: seen)
  case Nil
  show ?case by simp
next
  case (Cons x xs)
  obtain ys where
    "fold (\<lambda>x seen. if x \<in> set seen then seen else seen @ [x]) xs
       (if x \<in> set seen then seen else seen @ [x]) =
     (if x \<in> set seen then seen else seen @ [x]) @ ys"
    using Cons.IH by blast
  then show ?case by (cases "x \<in> set seen") simp_all
qed

lemma set_newSet: "set (newSet xs) = set xs"
  by (simp add: newSet_def newSet_step_set)

lemma distinct_newSet: "distinct (newSet xs)"
  by (simp add: newSet_def newSet_step_distinct)

lemma newSet_Nil_iff: "newSet xs = [] \<longleftrightarrow> xs = []"
  using set_newSet [of xs] by (metis set_empty)

lemma indexZero_newSet: "indexZero (newSet xs) = indexZero xs"
proof (cases xs)
  case Nil
  then show ?thesis by (simp add: newSet_def)
next
  case (Cons x xs')
  obtain ys where "fold (\<lambda>x seen. if x \<in> set seen then seen else seen @ [x]) xs' [x] = [x] @ ys"
    using newSet_step_prefix by blast
  then show ?thesis by (simp add: Cons newSet_def)
qed

lemma findStateVariableAccess_memberAccesses:
  "findStateVariableAccess n = newSet (memberAccesses n)"
  by (simp add: findStateVariableAccess_def visitor_memberAccesses)

lemma visitor_modifications_step:
  "extractStateModifications_visitor n acc =
     fold extractStateModifications_visitor (forEachChild n) (acc @ modificationsAt n)"
  by (subst extractStateModifications_visitor.simps)
    (simp add: Let_def split: node.splits)

lemma visitor_modifications_acc:
  "extractStateModifications_visitor n acc = acc @ extractStateModifications n"
proof (induction n arbitrary: acc rule: node_children_induct)
  case (1 n)
  have kids: "fold extractStateModifications_visitor (forEachChild n) a =
      a @ concat (map extractStateModifications (forEachChild n))" for a
    by (rule fold_collect) (rule 1)
  have "extractStateModifications_visitor n a =
      (a @ modificationsAt n) @ concat (map extractStateModifications (forEachChild n))" for a
    by (simp only: visitor_modifications_step [of n a] kids)
  then show ?case
    by (simp add: extractStateModifications_def [of n])
qed

lemma extractStateModifications_unfold:
  "extractStateModifications n =
     modificationsAt n @ concat (map extractStateModifications (forEachChild n))"
proof -
  have "fold extractStateModifications_visitor (forEachChild n) a =
      a @ concat (map extractStateModifications (forEachChild n))" for a
    by (rule fold_collect) (rule visitor_modifications_acc)
  then show ?thesis
    by (simp add: extractStateModifications_def visitor_modifications_step)
qed

lemma write_lines:
  "fold (\<lambda>m lines. if m_type m = assignment then lines @ [w m] else lines) ms acc =
     acc @ map w ms"
proof (induction ms arbitrary: acc)
  case Nil
  show ?case by simp
next
  case (Cons m ms)
  have "m_type m = assignment" by (cases "m_type m") simp
  then show ?case by (simp add: Cons.IH)
qed


lemma fold_concat_steps:
  assumes "\<And>x c. x \<in> set xs \<Longrightarrow> f x c = fold g (h x) c"
  shows "fold f xs c = fold g (concat (map h xs)) c"
  using assms by (induction xs arbitrary: c) simp_all

lemma processNode_step:
  "processNode n contract = fold processNode (forEachChild n) (fold applyClass (classAt n) contract)"
  by (subst processNode.simps) (simp add: applyClass_def split: node.splits)

lemma processNode_classDeclarations:
  "processNode n contract = fold applyClass (classDeclarations n) contract"
proof (induction n arbitrary: contract rule: node_children_induct)
  case (1 n)
  have "fold processNode (forEachChild n) c =
      fold applyClass (concat (map classDeclarations (forEachChild n))) c" for c
    by (rule fold_concat_steps) (rule 1)
  then show ?case
    by (subst processNode_step, subst classDeclarations.simps) simp
qed

lemma fold_processProperty:
  "fold processProperty ms contract =
     contract\<lparr>c_storage := c_storage contract @ List.map_filter storageOf ms\<rparr>"
proof (induction ms arbitrary: contract)
  case Nil
  show ?case by (simp add: List.map_filter_simps)
next
  case (Cons m ms)
  show ?case by (cases m) (simp_all add: Cons.IH List.map_filter_simps)
qed

lemma fold_processMember:
  "fold (\<lambda>member c. if isMethodDeclaration member then processMember member c else c) ms contract =
     contract\<lparr>c_functions := c_functions contract @ List.map_filter functionOf ms\<rparr>"
proof (induction ms arbitrary: contract)
  case Nil
  show ?case by (simp add: List.map_filter_simps)
next
  case (Cons m ms)
  show ?case
  proof (cases m)
    case (MethodDeclaration t modifiers name parameters type body)
    then show ?thesis
      by (cases name) (simp_all add: Cons.IH List.map_filter_simps Let_def)
  qed (simp_all add: Cons.IH List.map_filter_simps)
qed

lemma processClass_effect:
  "processClass cls contract =
     contract\<lparr>c_storage := c_storage contract @ classStorage cls,
              c_functions := c_functions contract @ classFunctions cls\<rparr>"
  by (cases cls)
    (simp_all add: classStorage_def classFunctions_def fold_processProperty fold_processMember
      List.map_filter_simps)

lemma applyClass_effect:
  "applyClass cls contract =
     \<lparr>c_name = contractName cls,
      c_storage = c_storage contract @ classStorage cls,
      c_functions = c_functions contract @ classFunctions cls\<rparr>"
  by (simp add: applyClass_def processClass_effect)

lemma fold_applyClass:
  "fold applyClass classes contract =
     \<lparr>c_name = (if classes = [] then c_name contract else contractName (last classes)),
      c_storage = c_storage contract @ concat (map classStorage classes),
      c_functions = c_functions contract @ concat (map classFunctions classes)\<rparr>"
proof (induction classes arbitrary: contract)
  case Nil
  show ?case by simp
next
  case (Cons cls classes)
  show ?case
    by (simp only: fold_simps comp_apply Cons.IH) (simp add: applyClass_effect)
qed

lemma model_classes:
  "model sourceFile =
     \<lparr>c_name =
        (if classDeclarations sourceFile = [] then []
         else contractName (last (classDeclarations sourceFile))),
      c_storage = concat (map classStorage (classDeclarations sourceFile)),
      c_functions = concat (map classFunctions (classDeclarations sourceFile))\<rparr>"
  by (simp add: model_def processNode_classDeclarations fold_applyClass initialContract_def)

lemma modificationsAt_instanceFieldBinary:
  "modificationsAt n = map modificationOf (instanceFieldBinary n)"
  by (cases n rule: modificationsAt.cases) simp_all

lemma extractStateModifications_instanceFieldBinaries:
  "extractStateModifications n = map modificationOf (instanceFieldBinaries n)"
proof (induction n rule: node_children_induct)
  case (1 n)
  have kids: "concat (map extractStateModifications (forEachChild n)) =
      concat (map (\<lambda>c. map modificationOf (instanceFieldBinaries c)) (forEachChild n))"
    by (rule arg_cong [where f = concat]) (simp add: 1)
  show ?case
    by (subst extractStateModifications_unfold, subst instanceFieldBinaries.simps)
      (simp add: kids modificationsAt_instanceFieldBinary map_concat comp_def)
qed

lemma analyzeFunctionBody_mutating:
  "analyzeFunctionBody (MethodDeclaration t modifiers name parameters type (Some body)) False =
     map writeInstruction (instanceFieldBinaries body) @
     (if containsReturn body then [readInstruction (indexZero (memberAccesses body))] else [])"
proof -
  have "(\<lambda>m. ''self.'' @ m_variable m @ ''.write('' @ m_expression m @ '');'') \<circ> modificationOf =
      writeInstruction"
    by (rule ext) auto
  then show ?thesis
    by (simp add: Let_def write_lines extractStateModifications_instanceFieldBinaries
        hasReturnStatement_containsReturn findStateVariableAccess_memberAccesses
        indexZero_newSet readInstruction_def)
qed

lemma analyzeFunctionBody_view:
  "analyzeFunctionBody (MethodDeclaration t modifiers name parameters type (Some body)) True =
     [readInstruction (indexZero (memberAccesses body))]"
  by (simp add: findStateVariableAccess_memberAccesses indexZero_newSet readInstruction_def)

section \<open>The claims\<close>

subsection \<open>C1: operators other than the three\<close>

text \<open>
  C1 says that a binary expression whose left operand is a member access on the instance
  reference and whose operator is none of \<^verbatim>\<open>=\<close>, \<^verbatim>\<open>+=\<close> and \<^verbatim>\<open>-=\<close> gives no mutation
  entry and no write instruction. The visitor of \<open>extractStateModifications\<close> tests the
  operator for \<^verbatim>\<open>+=\<close> and \<^verbatim>\<open>-=\<close> only and takes every other operator for a plain
  assignment: on \<^verbatim>\<open>this.count *= 2\<close> it pushes an entry of type \<open>assignment\<close> with the
  expression \<^verbatim>\<open>2\<close>, and the method gets the instruction \<^verbatim>\<open>self.count.write(2);\<close>, where
  the specification has no state mutation. The comparison \<^verbatim>\<open>this.count > 0\<close> gives an
  entry in the same way.
\<close>

theorem other_operators_are_written:
  "extractStateModifications scaleBody =
     [\<lparr>m_type = assignment, m_variable = ''count'', m_expression = ''2''\<rparr>]
   \<and> analyzeFunctionBody scaleMethod False = [''self.count.write(2);'']
   \<and> stateMutations scaleBody = []
   \<and> extractStateModifications
       (BinaryExpression ''this.count > 0'' (thisField ''count'') GreaterThanToken
          (OtherNode ''0'' [])) =
     [\<lparr>m_type = assignment, m_variable = ''count'', m_expression = ''0''\<rparr>]"
  by code_simp

subsection \<open>C2: the instructions of a method that is not a view\<close>

text \<open>
  C2 says that the instructions of a method not annotated as view are one write
  instruction for each assignment, add-assign and subtract-assign on an instance field,
  in their order, followed by one read instruction of the first distinct accessed field
  if and only if the body contains a return statement. As stated it fails on a body that
  returns and accesses no field: the read instruction is there and names no accessed
  field, since index zero of the empty list of accesses prints as \<^verbatim>\<open>undefined\<close>.
\<close>

theorem return_without_access_counterexample:
  "\<not> hasViewDecorator peekMethod
   \<and> containsReturn returnOne
   \<and> memberAccesses returnOne = []
   \<and> analyzeFunctionBody peekMethod (hasViewDecorator peekMethod) = [''self.undefined.read()'']"
  by code_simp

text \<open>
  C2 as amended: for every method not annotated as view in whose body every binary
  expression on an instance field has one of the three operators, the instructions are
  one write instruction for each of these expressions, in the order of the traversal,
  followed, if and only if the body contains a return statement anywhere, by one read
  instruction; the read instruction names the first accessed field, and the text
  \<^verbatim>\<open>undefined\<close> when the body accesses no field. A method with no body has no
  assignment and no return statement, and no instruction.
\<close>

theorem mutating_method_instructions:
  assumes "\<not> hasViewDecorator m"
    and "m = MethodDeclaration t modifiers name parameters type body"
    and "case body of
           None \<Rightarrow> True
         | Some b \<Rightarrow>
             list_all (\<lambda>(v, operator, rhs). recognizedOperator operator) (instanceFieldBinaries b)"
  shows "analyzeFunctionBody m (hasViewDecorator m) =
     (case body of
        None \<Rightarrow> []
      | Some b \<Rightarrow>
          map writeInstruction (stateMutations b) @
          (if containsReturn b then [readInstruction (indexZero (memberAccesses b))] else []))"
proof (cases body)
  case None
  then show ?thesis using assms(1,2) by simp
next
  case (Some b)
  then have "stateMutations b = instanceFieldBinaries b"
    using assms(3) by (simp add: stateMutations_def list_all_iff filter_id_conv)
  then show ?thesis
    using assms(1,2) Some by (simp only: analyzeFunctionBody_mutating option.case)
qed

theorem mutating_method_instructions_witness:
  "\<not> hasViewDecorator depositMethod
   \<and> list_all (\<lambda>(v, operator, rhs). recognizedOperator operator) (instanceFieldBinaries depositBody)
   \<and> analyzeFunctionBody depositMethod (hasViewDecorator depositMethod) =
       [''self.balance.write(self.balance.read() + amount);'', ''self.balance.read()'']"
proof -
  have h1: "\<not> hasViewDecorator depositMethod"
    by code_simp
  have h3: "list_all (\<lambda>(v, operator, rhs). recognizedOperator operator)
      (instanceFieldBinaries depositBody)"
    by code_simp
  have v: "map writeInstruction (stateMutations depositBody) @
      (if containsReturn depositBody
       then [readInstruction (indexZero (memberAccesses depositBody))] else []) =
      [''self.balance.write(self.balance.read() + amount);'', ''self.balance.read()'']"
    by code_simp
  have "analyzeFunctionBody depositMethod (hasViewDecorator depositMethod) =
      map writeInstruction (stateMutations depositBody) @
      (if containsReturn depositBody
       then [readInstruction (indexZero (memberAccesses depositBody))] else [])"
    using mutating_method_instructions [OF h1 depositMethod_def] h3 by simp
  then show ?thesis
    using h1 h3 v by simp
qed

subsection \<open>C3: the instructions of a view method\<close>

text \<open>
  C3 says that the instruction list of every method annotated with a view decorator has
  exactly one element, a read instruction of the first name among the distinct member
  accesses on the instance reference. As stated it fails on a view method that is
  declared without a body: \<open>analyzeFunctionBody\<close> returns the empty list before it looks
  at the decorator.
\<close>

theorem bodyless_view_counterexample:
  "hasViewDecorator declaredView
   \<and> analyzeFunctionBody declaredView (hasViewDecorator declaredView) = []"
  by code_simp

text \<open>
  C3 as amended: for every method annotated with a view decorator that has a body, the
  instruction list has exactly one element, a read instruction of the first name, in
  first-occurrence order, among the distinct member accesses on the instance reference
  found anywhere in the body (the text \<^verbatim>\<open>undefined\<close> when there is none). The list of
  state variables that the converter builds has no duplicates, holds the accessed names
  and starts with the first access of the traversal.
\<close>

theorem view_method_instructions:
  assumes "hasViewDecorator m"
    and "m = MethodDeclaration t modifiers name parameters type (Some body)"
  shows "analyzeFunctionBody m (hasViewDecorator m) =
       [readInstruction (indexZero (memberAccesses body))]
     \<and> indexZero (findStateVariableAccess body) = indexZero (memberAccesses body)
     \<and> distinct (findStateVariableAccess body)
     \<and> set (findStateVariableAccess body) = set (memberAccesses body)"
  using assms
  by (simp only: analyzeFunctionBody_view findStateVariableAccess_memberAccesses
      indexZero_newSet distinct_newSet set_newSet simp_thms)

theorem view_method_instructions_witness:
  "hasViewDecorator getBalanceMethod
   \<and> analyzeFunctionBody getBalanceMethod (hasViewDecorator getBalanceMethod) =
       [''self.balance.read()'']
   \<and> findStateVariableAccess getBalanceBody = [''balance'']"
proof -
  have h: "hasViewDecorator getBalanceMethod"
    by code_simp
  have v: "readInstruction (indexZero (memberAccesses getBalanceBody)) = ''self.balance.read()''"
    by code_simp
  have s: "findStateVariableAccess getBalanceBody = [''balance'']"
    by code_simp
  show ?thesis
    using h v s view_method_instructions [OF h getBalanceMethod_def] by simp
qed

subsection \<open>C4: the class declarations that the model is built from\<close>

text \<open>
  C4 says that the model is built from exactly one class declaration, the first one of a
  depth-first traversal, and that later class declarations contribute nothing. As stated
  it fails on a source file with two classes: \<open>processNode\<close> processes each class
  declaration it visits and goes on, so the contract is named after the second class
  and holds the fields of both.
\<close>

theorem two_classes_counterexample:
  "classDeclarations twoClasses = [firstClass, secondClass]
   \<and> c_name (model twoClasses) = ''Second''
   \<and> c_storage (model twoClasses) =
       [\<lparr>s_name = ''a'', s_type = ''felt252''\<rparr>, \<lparr>s_name = ''b'', s_type = ''bool''\<rparr>]"
  by code_simp

text \<open>
  C4 as amended: the model is built from every class declaration encountered in a
  depth-first traversal of the whole tree, nested declarations included. The contract
  name is that of the last class declaration visited (empty when there is none); the
  storage fields and the functions are those of all the class declarations, class after
  class in the order of the visit. With one class declaration in the tree, that class
  alone is the source of the name, the storage fields and the functions.
\<close>

theorem model_from_every_class:
  "c_name (model sourceFile) =
     (if classDeclarations sourceFile = [] then []
      else contractName (last (classDeclarations sourceFile)))
   \<and> c_storage (model sourceFile) = concat (map classStorage (classDeclarations sourceFile))
   \<and> c_functions (model sourceFile) = concat (map classFunctions (classDeclarations sourceFile))"
  by (simp add: model_classes)

subsection \<open>C5: the type mapper\<close>


subsection \<open>C6: the order of the storage fields and of the functions\<close>

text \<open>
  C6 says that, for every input, the storage fields and the functions of the emitted text
  are in the order in which the source declares the properties and the methods. As
  stated it fails when a class is declared inside a method of another class:
  \<open>processClass\<close> pushes all the members of the outer class before the traversal goes
  down into them, so the fields and the functions of the inner class come after all
  those of the outer class, whatever their place in the source.
\<close>

theorem nested_class_order_counterexample:
  "map s_name (List.map_filter storageOf (declared isPropertyDeclaration nestedSource)) =
     [''a'', ''i'', ''b'']
   \<and> map s_name (c_storage (model nestedSource)) = [''a'', ''b'', ''i'']
   \<and> map f_name (List.map_filter functionOf (declared isMethodDeclaration nestedSource)) =
     [''m'', ''n'', ''p'']
   \<and> map f_name (c_functions (model nestedSource)) = [''m'', ''p'', ''n'']
   \<and> generateStorageVariables (model nestedSource) =
     ''        a: felt252,'' @ newline @ ''        b: felt252,'' @ newline @ ''        i: felt252''"
  by code_simp

text \<open>
  C6 as amended: for every input, the storage fields and the functions of the emitted
  text are those of the class declarations of the source, class after class in the order
  in which a depth-first traversal visits the classes, and within one class in the order
  in which the properties and the methods are declared directly in its body. The
  interface block, the storage block and the implementation block of the text that
  \<open>convert\<close> returns list them in this order.
\<close>

theorem emitted_order_class_after_class:
  "convert sourceFile =
     (let classes = classDeclarations sourceFile;
          fields = concat (map (\<lambda>cls. List.map_filter storageOf (members cls)) classes);
          funs = concat (map (\<lambda>cls. List.map_filter functionOf (members cls)) classes);
          nm = (if classes = [] then [] else contractName (last classes))
      in join newline
           [''#[starknet::interface]'',
            ''pub trait I'' @ nm @ ''<TContractState> {'',
            join newline (map interfaceFunction funs),
            ''}'',
            [],
            ''#[starknet::contract]'',
            ''mod '' @ nm @ '' {'',
            ''    use core::starknet::storage::{StoragePointerReadAccess, StoragePointerWriteAccess};'',
            [],
            ''    #[storage]'',
            ''    struct Storage {'',
            join ('','' @ newline)
              (map (\<lambda>storage. ''        '' @ s_name storage @ '': '' @ s_type storage) fields),
            ''    }'',
            [],
            ''    #[abi(embed_v0)]'',
            ''    impl '' @ nm @ ''Impl of super::I'' @ nm @ ''<ContractState> {'',
            join (newline @ newline) (map implementationFunction funs),
            ''    }'',
            ''}''])
   \<and> c_storage (processClass (ClassDeclaration t modifiers name heritage ms) contract) =
     c_storage contract @ List.map_filter storageOf ms
   \<and> c_functions (processClass (ClassDeclaration t modifiers name heritage ms) contract) =
     c_functions contract @ List.map_filter functionOf ms"
proof -
  have storage: "classStorage = (\<lambda>cls. List.map_filter storageOf (members cls))"
    and funs: "classFunctions = (\<lambda>cls. List.map_filter functionOf (members cls))"
    by (rule ext, simp add: classStorage_def classFunctions_def)+
  have rendered: "convert sourceFile =
      generateCairoCode
        \<lparr>c_name =
           (if classDeclarations sourceFile = [] then []
            else contractName (last (classDeclarations sourceFile))),
         c_storage =
           concat (map (\<lambda>cls. List.map_filter storageOf (members cls))
             (classDeclarations sourceFile)),
         c_functions =
           concat (map (\<lambda>cls. List.map_filter functionOf (members cls))
             (classDeclarations sourceFile))\<rparr>"
    by (simp only: convert_def model_classes storage funs)
  show ?thesis
    by (simp only: rendered Let_def)
      (simp add: generateCairoCode_def generateStorageVariables_def
        generateInterfaceFunctions_def generateImplementationFunctions_def
        processClass_effect storage funs)
qed

subsection \<open>C7: a source program with no class declaration\<close>

text \<open>
  C7: for every source program with no class declaration anywhere, the conversion
  returns, and the model is the one the constructor set up: the contract name, the
  storage list and the function list are empty.
\<close>

theorem no_class_degenerate_model:
  assumes "classDeclarations sourceFile = []"
  shows "model sourceFile = \<lparr>c_name = [], c_storage = [], c_functions = []\<rparr>
     \<and> convert sourceFile = generateCairoCode initialContract"
  using assms by (simp add: convert_def model_classes initialContract_def)

theorem no_class_degenerate_model_witness:
  "classDeclarations noClassSource = []
   \<and> model noClassSource = \<lparr>c_name = [], c_storage = [], c_functions = []\<rparr>
   \<and> convert noClassSource = generateCairoCode initialContract"
proof -
  have h: "classDeclarations noClassSource = []"
    by code_simp
  show ?thesis
    using h no_class_degenerate_model [OF h] by simp
qed

subsection \<open>C8: add-assign and subtract-assign\<close>

text \<open>
  C8: for every add-assign on an instance field, wherever it stands in the body of a
  method, the expression of the write instruction is a read of the same field, \<^verbatim>\<open>+\<close>,
  and the text of the right operand as it stands in the source; for a subtract-assign
  the same with \<^verbatim>\<open>-\<close>. The instructions of a method that is not a view are the write
  instructions of the binary expressions on an instance field found in its body, in the
  order of the traversal, and then the read instruction when the body returns. The
  method that does \<^verbatim>\<open>this.balance += amount;\<close> and then \<^verbatim>\<open>return this.balance;\<close> gets the
  write of \<^verbatim>\<open>balance\<close> with the expression \<^verbatim>\<open>self.balance.read() + amount\<close> and then the
  read of \<^verbatim>\<open>balance\<close>; a subtract-assign under a condition gets its write as well.
\<close>

theorem add_assign_reads_then_combines:
  "analyzeFunctionBody (MethodDeclaration t modifiers name parameters type (Some body)) False =
     map writeInstruction (instanceFieldBinaries body) @
     (if containsReturn body then [readInstruction (indexZero (memberAccesses body))] else [])
   \<and> writeInstruction (v, PlusEqualsToken, rhs) =
     ''self.'' @ v @ ''.write(self.'' @ v @ ''.read() + '' @ rhs @ '');''
   \<and> writeInstruction (v, MinusEqualsToken, rhs) =
     ''self.'' @ v @ ''.write(self.'' @ v @ ''.read() - '' @ rhs @ '');''
   \<and> extractStateModifications body = map modificationOf (instanceFieldBinaries body)
   \<and> modificationOf (v, PlusEqualsToken, rhs) =
     \<lparr>m_type = assignment, m_variable = v,
      m_expression = ''self.'' @ v @ ''.read() + '' @ rhs\<rparr>
   \<and> modificationOf (v, MinusEqualsToken, rhs) =
     \<lparr>m_type = assignment, m_variable = v,
      m_expression = ''self.'' @ v @ ''.read() - '' @ rhs\<rparr>
   \<and> instanceFieldBinaries
       (BinaryExpression t1 (PropertyAccessExpression t2 ThisKeyword field) operator right) =
     (getText field, operator, getText right) #
     instanceFieldBinaries field @ instanceFieldBinaries right
   \<and> extractStateModifications
     (BinaryExpression t1 (PropertyAccessExpression t2 ThisKeyword field) PlusEqualsToken right) =
     \<lparr>m_type = assignment, m_variable = getText field,
      m_expression = ''self.'' @ getText field @ ''.read() + '' @ getText right\<rparr> #
     extractStateModifications field @ extractStateModifications right
   \<and> extractStateModifications
     (BinaryExpression t1 (PropertyAccessExpression t2 ThisKeyword field) MinusEqualsToken right) =
     \<lparr>m_type = assignment, m_variable = getText field,
      m_expression = ''self.'' @ getText field @ ''.read() - '' @ getText right\<rparr> #
     extractStateModifications field @ extractStateModifications right
   \<and> analyzeFunctionBody depositMethod False =
     [''self.balance.write(self.balance.read() + amount);'', ''self.balance.read()'']
   \<and> analyzeFunctionBody withdrawMethod False =
     [''self.balance.write(self.balance.read() - amount);'']"
proof -
  have leaf: "instanceFieldBinaries ThisKeyword = []"
    by (simp add: instanceFieldBinaries.simps [of ThisKeyword])
  have left: "instanceFieldBinaries (PropertyAccessExpression t2 ThisKeyword field) =
      instanceFieldBinaries field"
    by (simp add: leaf
        instanceFieldBinaries.simps [of "PropertyAccessExpression t2 ThisKeyword field"])
  have at: "instanceFieldBinaries
       (BinaryExpression t1 (PropertyAccessExpression t2 ThisKeyword field) op right) =
     (getText field, op, getText right) #
     instanceFieldBinaries field @ instanceFieldBinaries right" for op
    by (simp add: left
        instanceFieldBinaries.simps
          [of "BinaryExpression t1 (PropertyAccessExpression t2 ThisKeyword field) op right"])
  have deposit: "analyzeFunctionBody depositMethod False =
      [''self.balance.write(self.balance.read() + amount);'', ''self.balance.read()'']"
    by code_simp
  have withdraw: "analyzeFunctionBody withdrawMethod False =
      [''self.balance.write(self.balance.read() - amount);'']"
    by code_simp
  show ?thesis
    by (simp only: analyzeFunctionBody_mutating deposit withdraw
        extractStateModifications_instanceFieldBinaries at)
      simp
qed

subsection \<open>C9: index zero of an empty list of state variables\<close>



subsection \<open>C10: a method declaration with no body\<close>

text \<open>
  C10: for every method declaration that has no body, the instruction list is empty,
  whether or not the method is annotated as view: the function model that is pushed for
  it has an empty body.
\<close>

theorem bodyless_method_has_no_instructions:
  "analyzeFunctionBody (MethodDeclaration t modifiers name parameters type None) isView = []
   \<and> map f_body
       (c_functions
          (processMember (MethodDeclaration t modifiers (Some methodName) parameters type None)
             contract)) =
     map f_body (c_functions contract) @ [[]]"
  by (simp add: Let_def)

end
